theory Spec2Isabelle
  imports Complex_Main
begin

section \<open>Product catalog: the Catalog Service (main.py)\<close>

text \<open>
  The embedding follows \<^verbatim>\<open>main.py\<close>. The relational store behind the SQLAlchemy
  session is a list of rows in scan order together with the AUTO_INCREMENT counter of the
  integer primary key. The table is the one \<^verbatim>\<open>ProductModel\<close> declares: a column has
  the nullability and the default written there and no other, so a column that the service
  does not assign and that has no declared default is NULL. A handler takes the store and
  returns its result (an error or a value) and the store after the request. Prices are
  Python floats; they are modelled as real numbers, so rounding in the store's FLOAT
  column is outside the model.
\<close>

subsection \<open>Data model\<close>

type_synonym timestamp = nat

text \<open>
  \<^verbatim>\<open>class ProductModel(Base)\<close>: one row of table \<^verbatim>\<open>products\<close>. Columns declared
  \<^verbatim>\<open>nullable=False\<close> (and the primary key) hold a value, every other column may be
  NULL (\<open>None\<close>). The column \<^verbatim>\<open>id\<close> is called \<open>id_col\<close> here.
\<close>

record ProductModel =
  id_col :: int
  name :: string
  price :: real
  description :: "string option"
  category :: "string option"
  in_stock :: "bool option"
  created_at :: "timestamp option"
  updated_at :: "timestamp option"

text \<open>\<^verbatim>\<open>class Product(BaseModel)\<close>: the response model; it has no timestamp field.\<close>

record Product =
  r_id :: int
  r_name :: string
  r_price :: real
  r_description :: "string option"
  r_category :: string
  r_in_stock :: bool

text \<open>
  \<^verbatim>\<open>class ProductCreate(BaseModel)\<close>, after the defaults of absent fields
  (\<^verbatim>\<open>description=None\<close>, \<^verbatim>\<open>category="General"\<close>, \<^verbatim>\<open>in_stock=True\<close>) are filled in.
\<close>

record ProductCreate =
  c_name :: string
  c_price :: real
  c_description :: "string option"
  c_category :: string
  c_in_stock :: bool

text \<open>
  \<^verbatim>\<open>class ProductUpdate(BaseModel)\<close>: every field is \<^verbatim>\<open>Optional\<close> with default
  \<^verbatim>\<open>None\<close>. \<^verbatim>\<open>model_dump(exclude_unset=True)\<close> tells a field that the request did
  not carry (\<open>Unset\<close>) from one that it carried, possibly as null (\<open>Given None\<close>).
\<close>

datatype 'a patch_field = Unset | Given "'a option"

record ProductUpdate =
  u_name :: "string patch_field"
  u_price :: "real patch_field"
  u_description :: "string patch_field"
  u_category :: "string patch_field"
  u_in_stock :: "bool patch_field"

text \<open>
  What a request can end in: a rejected request body or query (FastAPI answers 422), an
  \<^verbatim>\<open>HTTPException\<close> raised by a handler with its status code and detail, an
  \<^verbatim>\<open>IntegrityError\<close> of the store at commit (answered 500), or a value returned by
  the handler that does not validate against the route's \<^verbatim>\<open>response_model\<close>
  (answered 500).
\<close>

datatype error =
  RequestValidationError | HTTPException nat string | IntegrityError | ResponseValidationError

fun status_code :: "error \<Rightarrow> nat" where
  "status_code RequestValidationError = 422"
| "status_code (HTTPException code detail) = code"
| "status_code IntegrityError = 500"
| "status_code ResponseValidationError = 500"

record store =
  rows :: "ProductModel list"
  auto_increment :: int

subsection \<open>Formatting an integer as Python's f-string does\<close>

definition digit_char :: "nat \<Rightarrow> char" where
  "digit_char d = ''0123456789'' ! d"

fun str_nat :: "nat \<Rightarrow> string" where
  "str_nat n = (if n < 10 then [digit_char n] else str_nat (n div 10) @ [digit_char (n mod 10)])"

definition str_int :: "int \<Rightarrow> string" where
  "str_int i = (if i < 0 then CHR ''-'' # str_nat (nat (- i)) else str_nat (nat i))"

definition not_found :: "int \<Rightarrow> error" where
  "not_found product_id = HTTPException 404 (''Product '' @ str_int product_id @ '' not found'')"

subsection \<open>Declared constraints of the request models\<close>

text \<open>\<^verbatim>\<open>Field(..., min_length=1, max_length=100)\<close> and the other \<^verbatim>\<open>Field\<close> bounds.\<close>

definition valid_name :: "string \<Rightarrow> bool" where
  "valid_name s = (1 \<le> length s \<and> length s \<le> 100)"

definition valid_price :: "real \<Rightarrow> bool" where
  "valid_price p = (0 < p)"

definition valid_description :: "string \<Rightarrow> bool" where
  "valid_description s = (length s \<le> 500)"

definition valid_category :: "string \<Rightarrow> bool" where
  "valid_category s = (length s \<le> 50)"

definition valid_ProductCreate :: "ProductCreate \<Rightarrow> bool" where
  "valid_ProductCreate p =
     (valid_name (c_name p) \<and> valid_price (c_price p)
      \<and> (case c_description p of None \<Rightarrow> True | Some d \<Rightarrow> valid_description d)
      \<and> valid_category (c_category p))"

text \<open>A constraint of an \<^verbatim>\<open>Optional\<close> field binds only a value that is given and not null.\<close>

fun field_ok :: "('a \<Rightarrow> bool) \<Rightarrow> 'a patch_field \<Rightarrow> bool" where
  "field_ok ok Unset = True"
| "field_ok ok (Given None) = True"
| "field_ok ok (Given (Some v)) = ok v"

definition valid_ProductUpdate :: "ProductUpdate \<Rightarrow> bool" where
  "valid_ProductUpdate u =
     (field_ok valid_name (u_name u) \<and> field_ok valid_price (u_price u)
      \<and> field_ok valid_description (u_description u)
      \<and> field_ok valid_category (u_category u))"

subsection \<open>Handlers\<close>

text \<open>
  \<^verbatim>\<open>response_model=Product\<close>: the response is read off the row's attributes; a NULL
  where \<^verbatim>\<open>Product\<close> declares \<^verbatim>\<open>str\<close> or \<^verbatim>\<open>bool\<close> does not validate, and
  the request ends in a response validation error after the handler has returned.
  \<^verbatim>\<open>response_model=List[Product]\<close> validates every row of the page.
\<close>

definition Product_from_attributes :: "ProductModel \<Rightarrow> Product option" where
  "Product_from_attributes r =
     (case (category r, in_stock r) of
        (Some c, Some s) \<Rightarrow>
          Some \<lparr>r_id = id_col r, r_name = name r, r_price = price r,
                r_description = description r, r_category = c, r_in_stock = s\<rparr>
      | _ \<Rightarrow> None)"

definition response_model :: "ProductModel \<Rightarrow> error + ProductModel" where
  "response_model row =
     (case Product_from_attributes row of
        None \<Rightarrow> Inl ResponseValidationError
      | Some p \<Rightarrow> Inr row)"

definition response_model_list :: "ProductModel list \<Rightarrow> error + ProductModel list" where
  "response_model_list page =
     (if list_all (\<lambda>row. Product_from_attributes row \<noteq> None) page then Inr page
      else Inl ResponseValidationError)"

text \<open>\<^verbatim>\<open>db.query(ProductModel).filter(ProductModel.id == product_id).first()\<close>\<close>

definition first_by_id :: "int \<Rightarrow> store \<Rightarrow> ProductModel option" where
  "first_by_id product_id db = find (\<lambda>r. id_col r = product_id) (rows db)"

text \<open>
  \<^verbatim>\<open>list_products\<close>: \<^verbatim>\<open>skip\<close> is declared \<^verbatim>\<open>ge=0\<close> and \<^verbatim>\<open>limit\<close>
  \<^verbatim>\<open>ge=1, le=500\<close>. \<^verbatim>\<open>if category:\<close> is Python truthiness: the filter is applied to
  a string that is neither absent nor empty. \<^verbatim>\<open>if in_stock is not None:\<close> applies the
  filter to both truth values. A SQL equality is not true of a NULL column. The query has
  no ORDER BY: the page is cut from the rows in the order of the scan. The returned page
  is validated against \<^verbatim>\<open>response_model=List[Product]\<close>.
\<close>

definition list_products ::
  "string option \<Rightarrow> bool option \<Rightarrow> int \<Rightarrow> int \<Rightarrow> store \<Rightarrow> error + ProductModel list" where
  "list_products category_filter in_stock_filter skip limit db =
     (if skip < 0 \<or> limit < 1 \<or> 500 < limit then Inl RequestValidationError
      else
        let query = rows db;
            query = (case category_filter of
                       None \<Rightarrow> query
                     | Some c \<Rightarrow> if c = [] then query
                                else filter (\<lambda>r. category r = Some c) query);
            query = (case in_stock_filter of
                       None \<Rightarrow> query
                     | Some b \<Rightarrow> filter (\<lambda>r. in_stock r = Some b) query)
        in response_model_list (take (nat limit) (drop (nat skip) query)))"

definition get_product :: "int \<Rightarrow> store \<Rightarrow> error + ProductModel" where
  "get_product product_id db =
     (case first_by_id product_id db of
        None \<Rightarrow> Inl (not_found product_id)
      | Some product \<Rightarrow> Inr product)"

text \<open>
  \<^verbatim>\<open>create_product\<close>: the row is built from the five fields of the payload; neither
  timestamp column is given a value and neither has a declared default, so both are
  inserted as NULL. The store assigns the primary key from its counter.
\<close>

definition new_row :: "int \<Rightarrow> ProductCreate \<Rightarrow> ProductModel" where
  "new_row i p =
     \<lparr>id_col = i, name = c_name p, price = c_price p, description = c_description p,
      category = Some (c_category p), in_stock = Some (c_in_stock p),
      created_at = None, updated_at = None\<rparr>"

definition create_product :: "ProductCreate \<Rightarrow> store \<Rightarrow> (error + ProductModel) \<times> store" where
  "create_product product db =
     (if \<not> valid_ProductCreate product then (Inl RequestValidationError, db)
      else
        let db_product = new_row (auto_increment db) product
        in (Inr db_product,
            db\<lparr>rows := rows db @ [db_product], auto_increment := auto_increment db + 1\<rparr>))"

text \<open>
  \<^verbatim>\<open>update_product\<close>: the body is validated, the row is looked up, then
  \<^verbatim>\<open>setattr\<close> runs for every field of the dump, that is for every field the request
  carried, and the session commits. \<open>apply_update\<close> is the row after the loop. A null
  written to a \<^verbatim>\<open>nullable=False\<close> column (name, price) fails at commit and nothing is
  stored. The timestamp columns are not among the fields of \<^verbatim>\<open>ProductUpdate\<close> and
  have no \<^verbatim>\<open>onupdate\<close>; with an empty dump nothing is assigned and the commit writes
  nothing. The committed row is returned and validated against \<^verbatim>\<open>response_model\<close>:
  when it holds a NULL category or in_stock the request ends in an error although the
  store has changed.
\<close>

fun patched :: "'a patch_field \<Rightarrow> 'a \<Rightarrow> 'a" where
  "patched (Given (Some v)) old = v"
| "patched _ old = old"

fun patched_nullable :: "'a patch_field \<Rightarrow> 'a option \<Rightarrow> 'a option" where
  "patched_nullable Unset old = old"
| "patched_nullable (Given v) old = v"

definition apply_update :: "ProductUpdate \<Rightarrow> ProductModel \<Rightarrow> ProductModel" where
  "apply_update u r =
     r\<lparr>name := patched (u_name u) (name r),
       price := patched (u_price u) (price r),
       description := patched_nullable (u_description u) (description r),
       category := patched_nullable (u_category u) (category r),
       in_stock := patched_nullable (u_in_stock u) (in_stock r)\<rparr>"

definition update_product ::
  "int \<Rightarrow> ProductUpdate \<Rightarrow> store \<Rightarrow> (error + ProductModel) \<times> store" where
  "update_product product_id product_update db =
     (if \<not> valid_ProductUpdate product_update then (Inl RequestValidationError, db)
      else case first_by_id product_id db of
        None \<Rightarrow> (Inl (not_found product_id), db)
      | Some db_product \<Rightarrow>
          if u_name product_update = Given None \<or> u_price product_update = Given None
          then (Inl IntegrityError, db)
          else (response_model (apply_update product_update db_product),
                db\<lparr>rows := map (\<lambda>r. if id_col r = product_id
                                     then apply_update product_update r else r) (rows db)\<rparr>))"

definition delete_product :: "int \<Rightarrow> store \<Rightarrow> (error + unit) \<times> store" where
  "delete_product product_id db =
     (case first_by_id product_id db of
        None \<Rightarrow> (Inl (not_found product_id), db)
      | Some db_product \<Rightarrow>
          (Inr (), db\<lparr>rows := filter (\<lambda>r. id_col r \<noteq> product_id) (rows db)\<rparr>))"

definition empty_patch :: ProductUpdate where
  "empty_patch = \<lparr>u_name = Unset, u_price = Unset, u_description = Unset,
                  u_category = Unset, u_in_stock = Unset\<rparr>"

definition empty_store :: store where
  "empty_store = \<lparr>rows = [], auto_increment = 1\<rparr>"

subsection \<open>Stores that the service can reach\<close>

text \<open>
  The primary key is unique and a scan of the table yields the rows by ascending key; the
  counter is above every key in the table. \<open>store_inv\<close> states this of a store. It holds
  of the empty table and every handler keeps it.
\<close>

definition ids :: "store \<Rightarrow> int set" where
  "ids db = id_col ` set (rows db)"

definition store_inv :: "store \<Rightarrow> bool" where
  "store_inv db =
     (sorted_wrt (<) (map id_col (rows db))
      \<and> list_all (\<lambda>r. id_col r < auto_increment db) (rows db))"

text \<open>
  A history is the sequence of the writing requests served so far. \<open>created\<close> lists the
  identifiers that Create returned in it, \<open>deleted\<close> those that Delete removed.
\<close>

datatype request = Create ProductCreate | Update int ProductUpdate | Delete int

fun serve :: "request \<Rightarrow> store \<Rightarrow> store" where
  "serve (Create product) db = snd (create_product product db)"
| "serve (Update product_id product_update) db = snd (update_product product_id product_update db)"
| "serve (Delete product_id) db = snd (delete_product product_id db)"

fun run :: "request list \<Rightarrow> store \<Rightarrow> store" where
  "run [] db = db"
| "run (r # rs) db = run rs (serve r db)"

fun created_by :: "request \<Rightarrow> store \<Rightarrow> int list" where
  "created_by (Create product) db =
     (case fst (create_product product db) of Inr row \<Rightarrow> [id_col row] | Inl e \<Rightarrow> [])"
| "created_by r db = []"

fun deleted_by :: "request \<Rightarrow> store \<Rightarrow> int list" where
  "deleted_by (Delete product_id) db =
     (case fst (delete_product product_id db) of Inr u \<Rightarrow> [product_id] | Inl e \<Rightarrow> [])"
| "deleted_by r db = []"

fun created :: "request list \<Rightarrow> store \<Rightarrow> int list" where
  "created [] db = []"
| "created (r # rs) db = created_by r db @ created rs (serve r db)"

fun deleted :: "request list \<Rightarrow> store \<Rightarrow> int list" where
  "deleted [] db = []"
| "deleted (r # rs) db = deleted_by r db @ deleted rs (serve r db)"

subsection \<open>Sample values\<close>

text \<open>
  The payload \<^verbatim>\<open>{name: "Widget", price: 9.99}\<close> with its defaults, the store after
  creating it in the empty table, and a table whose only row carries timestamps.
\<close>

definition widget :: ProductCreate where
  "widget = \<lparr>c_name = ''Widget'', c_price = 9.99, c_description = None,
             c_category = ''General'', c_in_stock = True\<rparr>"

definition widget_row :: ProductModel where
  "widget_row = \<lparr>id_col = 1, name = ''Widget'', price = 9.99, description = None,
                 category = Some ''General'', in_stock = Some True,
                 created_at = None, updated_at = None\<rparr>"

definition widget_store :: store where
  "widget_store = \<lparr>rows = [widget_row], auto_increment = 2\<rparr>"

definition stamped_row :: ProductModel where
  "stamped_row = \<lparr>id_col = 1, name = ''Widget'', price = 9.99, description = None,
                  category = Some ''General'', in_stock = Some True,
                  created_at = Some 5, updated_at = Some 5\<rparr>"

definition stamped_store :: store where
  "stamped_store = \<lparr>rows = [stamped_row], auto_increment = 2\<rparr>"

text \<open>The patch \<^verbatim>\<open>{price: 12.5}\<close> and what it makes of the widget.\<close>

definition price_patch :: ProductUpdate where
  "price_patch = \<lparr>u_name = Unset, u_price = Given (Some 12.5), u_description = Unset,
                  u_category = Unset, u_in_stock = Unset\<rparr>"

definition repriced_row :: ProductModel where
  "repriced_row = \<lparr>id_col = 1, name = ''Widget'', price = 12.5, description = None,
                   category = Some ''General'', in_stock = Some True,
                   created_at = None, updated_at = None\<rparr>"

definition repriced_store :: store where
  "repriced_store = \<lparr>rows = [repriced_row], auto_increment = 2\<rparr>"

text \<open>A table of five rows with the keys 1 to 5; the third is out of stock.\<close>

definition product_row :: "int \<Rightarrow> ProductModel" where
  "product_row i = widget_row\<lparr>id_col := i\<rparr>"

definition five_store :: store where
  "five_store =
     \<lparr>rows = [product_row 1, product_row 2, (product_row 3)\<lparr>in_stock := Some False\<rparr>,
              product_row 4, product_row 5],
      auto_increment = 6\<rparr>"

text \<open>
  The patch \<^verbatim>\<open>{category: null}\<close>, five creations of the widget followed by that patch
  on the first of them, and the table they leave.
\<close>

definition null_category_patch :: ProductUpdate where
  "null_category_patch = \<lparr>u_name = Unset, u_price = Unset, u_description = Unset,
                          u_category = Given None, u_in_stock = Unset\<rparr>"

definition nulling_history :: "request list" where
  "nulling_history =
     [Create widget, Create widget, Create widget, Create widget, Create widget,
      Update 1 null_category_patch]"

definition nulled_store :: store where
  "nulled_store =
     \<lparr>rows = [(product_row 1)\<lparr>category := None\<rparr>, product_row 2, product_row 3,
              product_row 4, product_row 5],
      auto_increment = 6\<rparr>"


section \<open>The Tool Proxy (mcp_server.py)\<close>

subsection \<open>The service seen over HTTP\<close>

text \<open>
  What \<^verbatim>\<open>GET /products/{product_id}\<close> answers: status 200 with the product read off
  the row, the status and detail of the \<^verbatim>\<open>HTTPException\<close> the handler raised, or
  status 500 when the row does not validate as a \<^verbatim>\<open>Product\<close>. The body of a 422
  answer (a list of violated constraints) and of a 500 answer are not modelled further.
\<close>

datatype body = ProductBody Product | DetailBody string | ValidationErrors | ServerErrorBody

fun error_body :: "error \<Rightarrow> body" where
  "error_body (HTTPException code detail) = DetailBody detail"
| "error_body RequestValidationError = ValidationErrors"
| "error_body IntegrityError = ServerErrorBody"
| "error_body ResponseValidationError = ServerErrorBody"

definition http_get_product :: "int \<Rightarrow> store \<Rightarrow> nat \<times> body" where
  "http_get_product product_id db =
     (case get_product product_id db of
        Inl e \<Rightarrow> (status_code e, error_body e)
      | Inr row \<Rightarrow>
          (case Product_from_attributes row of
             None \<Rightarrow> (500, ServerErrorBody)
           | Some p \<Rightarrow> (200, ProductBody p)))"

subsection \<open>The get action\<close>

text \<open>
  What \<^verbatim>\<open>await client.get(...)\<close> ends in: a response with its status code and its body
  decoded as JSON (\<open>None\<close> for a body that does not decode), or an \<^verbatim>\<open>httpx.HTTPError\<close>
  of the transport (time-out, refused connection) with its message.
\<close>

datatype 'a exchange = Delivered nat "'a option" | Failed string

text \<open>
  What a tool call ends in: the relayed payload, the \<^verbatim>\<open>{"error": ...}\<close> payload, or an
  exception that no \<^verbatim>\<open>except\<close> clause of the tool catches.
\<close>

datatype 'a tool_result = Payload 'a | ErrorPayload string | Raised

text \<open>
  \<^verbatim>\<open>get_product\<close> of the proxy. \<^verbatim>\<open>raise_for_status\<close> raises
  \<^verbatim>\<open>HTTPStatusError\<close> for every status outside 200 to 299; \<open>describe\<close> is the text httpx
  gives that exception for a status code. \<^verbatim>\<open>response.json()\<close> is reached on success
  only, and its failure is not an \<^verbatim>\<open>httpx.HTTPError\<close>.
\<close>

definition mcp_get_product ::
  "(nat \<Rightarrow> string) \<Rightarrow> int \<Rightarrow> 'a exchange \<Rightarrow> 'a tool_result" where
  "mcp_get_product describe product_id response =
     (case response of
        Failed message \<Rightarrow> ErrorPayload (''Connection error: '' @ message)
      | Delivered code decoded \<Rightarrow>
          if 200 \<le> code \<and> code < 300
          then (case decoded of None \<Rightarrow> Raised | Some json \<Rightarrow> Payload json)
          else if code = 404
          then ErrorPayload (''Product '' @ str_int product_id @ '' not found'')
          else ErrorPayload (''Failed to fetch product: '' @ describe code))"

subsection \<open>The actions and the operations\<close>

text \<open>
  Each route of \<^verbatim>\<open>main.py\<close> among the seven operations, with the parameters of its
  handler that a caller supplies (the session dependency is not one), and each
  \<^verbatim>\<open>@mcp.tool()\<close> of \<^verbatim>\<open>mcp_server.py\<close> with its parameters and the request it sends.
\<close>

datatype http_method = GET | POST | PUT | DELETE

record action =
  action_name :: string
  http_verb :: http_method
  path :: string
  parameters :: "string list"

definition service_operations :: "action list" where
  "service_operations =
     [\<lparr>action_name = ''list_products'', http_verb = GET, path = ''/products'',
        parameters = [''category'', ''in_stock'', ''skip'', ''limit'']\<rparr>,
      \<lparr>action_name = ''get_product'', http_verb = GET, path = ''/products/{product_id}'',
        parameters = [''product_id'']\<rparr>,
      \<lparr>action_name = ''create_product'', http_verb = POST, path = ''/products'',
        parameters = [''name'', ''price'', ''description'', ''category'', ''in_stock'']\<rparr>,
      \<lparr>action_name = ''update_product'', http_verb = PUT, path = ''/products/{product_id}'',
        parameters = [''product_id'', ''name'', ''price'', ''description'', ''category'',
                      ''in_stock'']\<rparr>,
      \<lparr>action_name = ''delete_product'', http_verb = DELETE, path = ''/products/{product_id}'',
        parameters = [''product_id'']\<rparr>,
      \<lparr>action_name = ''list_categories'', http_verb = GET, path = ''/categories'',
        parameters = []\<rparr>,
      \<lparr>action_name = ''health_check'', http_verb = GET, path = ''/health'',
        parameters = []\<rparr>]"

definition mcp_tools :: "action list" where
  "mcp_tools =
     [\<lparr>action_name = ''list_products'', http_verb = GET, path = ''/products'',
        parameters = [''category'', ''in_stock'', ''limit'']\<rparr>,
      \<lparr>action_name = ''get_product'', http_verb = GET, path = ''/products/{product_id}'',
        parameters = [''product_id'']\<rparr>,
      \<lparr>action_name = ''create_product'', http_verb = POST, path = ''/products'',
        parameters = [''name'', ''price'', ''description'', ''category'', ''in_stock'']\<rparr>,
      \<lparr>action_name = ''update_product'', http_verb = PUT, path = ''/products/{product_id}'',
        parameters = [''product_id'', ''name'', ''price'', ''description'', ''category'',
                      ''in_stock'']\<rparr>,
      \<lparr>action_name = ''delete_product'', http_verb = DELETE, path = ''/products/{product_id}'',
        parameters = [''product_id'']\<rparr>,
      \<lparr>action_name = ''get_categories'', http_verb = GET, path = ''/categories'',
        parameters = []\<rparr>]"

text \<open>The tool that sends the request of an operation, and whether it takes its parameters.\<close>

definition tool_for :: "action \<Rightarrow> action option" where
  "tool_for operation =
     find (\<lambda>t. http_verb t = http_verb operation \<and> path t = path operation) mcp_tools"

definition same_parameters :: "action \<Rightarrow> bool" where
  "same_parameters operation =
     (case tool_for operation of
        None \<Rightarrow> False
      | Some t \<Rightarrow> set (parameters t) = set (parameters operation))"

text \<open>
  The query parameters that \<^verbatim>\<open>list_products\<close> of the proxy sends: \<^verbatim>\<open>limit\<close> always,
  \<^verbatim>\<open>category\<close> when it is truthy, \<^verbatim>\<open>in_stock\<close> as \<^verbatim>\<open>str(in_stock).lower()\<close> when
  it is not \<^verbatim>\<open>None\<close>.
\<close>

definition mcp_list_products_params ::
  "string option \<Rightarrow> bool option \<Rightarrow> int \<Rightarrow> (string \<times> string) list" where
  "mcp_list_products_params category_filter in_stock_filter limit =
     [(''limit'', str_int limit)]
     @ (case category_filter of
          None \<Rightarrow> []
        | Some c \<Rightarrow> if c = [] then [] else [(''category'', c)])
     @ (case in_stock_filter of
          None \<Rightarrow> []
        | Some b \<Rightarrow> [(''in_stock'', if b then ''true'' else ''false'')])"

section \<open>Properties of the Catalog Service\<close>

subsection \<open>Lookup by identifier\<close>

lemma find_absent:
  "product_id \<notin> id_col ` set xs \<Longrightarrow> find (\<lambda>r. id_col r = product_id) xs = None"
  by (induction xs) auto

lemma first_by_id_absent:
  "product_id \<notin> id_col ` set (rows db) \<Longrightarrow> first_by_id product_id db = None"
  by (simp add: first_by_id_def find_absent)

lemma first_by_id_Some:
  "first_by_id product_id db = Some r \<Longrightarrow> r \<in> set (rows db) \<and> id_col r = product_id"
  unfolding first_by_id_def by (auto simp: find_Some_iff)

subsection \<open>Response validation\<close>

lemma Product_from_attributes_None:
  "(Product_from_attributes r = None) = (category r = None \<or> in_stock r = None)"
  by (auto simp: Product_from_attributes_def split: option.splits)

lemma response_model_eq:
  "response_model r
     = (if category r = None \<or> in_stock r = None then Inl ResponseValidationError else Inr r)"
  by (cases "category r"; cases "in_stock r")
     (simp_all add: response_model_def Product_from_attributes_def)

lemma response_model_list_eq:
  "response_model_list page
     = (if list_all (\<lambda>r. category r \<noteq> None \<and> in_stock r \<noteq> None) page then Inr page
        else Inl ResponseValidationError)"
  by (simp add: response_model_list_def Product_from_attributes_None)

lemma list_products_valid:
  "0 \<le> skip \<Longrightarrow> 1 \<le> limit \<Longrightarrow> limit \<le> 500 \<Longrightarrow>
   list_products c s skip limit db
     = response_model_list (take (nat limit) (drop (nat skip)
         (filter (\<lambda>r. (c = None \<or> c = Some [] \<or> category r = c)
                      \<and> (s = None \<or> in_stock r = s)) (rows db))))"
proof -
  assume "0 \<le> skip" and "1 \<le> limit" and "limit \<le> 500"
  moreover have "filter (\<lambda>r. in_stock r = Some b) (filter (\<lambda>r. category r = Some x) xs)
          = filter (\<lambda>r. category r = Some x \<and> in_stock r = Some b) xs" for b x xs
    by (induction xs) auto
  ultimately show ?thesis
    by (cases c; cases s) (auto simp: list_products_def Let_def)
qed

subsection \<open>The two filters of List\<close>

text \<open>
  C10. In \<^verbatim>\<open>list_products\<close> a category filter that is the empty string gives the same
  answer as no category filter, for every request and store. An in_stock filter is a real
  filter for both truth values, false as much as true: the page is cut from the rows whose
  in_stock column has the value asked for (and that pass the category filter). Only an
  absent in_stock filter lets every value through. In each case a page with a row that
  has no category or no in_stock value ends in the response validation error.
\<close>

theorem list_products_filter_tests:
  "list_products (Some []) in_stock_filter skip limit db
     = list_products None in_stock_filter skip limit db
   \<and> list_products category_filter (Some b) skip limit db
     = (if skip < 0 \<or> limit < 1 \<or> 500 < limit then Inl RequestValidationError
        else if list_all (\<lambda>r. category r \<noteq> None \<and> in_stock r \<noteq> None)
                  (take (nat limit) (drop (nat skip)
                     (filter (\<lambda>r. (category_filter = None \<or> category_filter = Some []
                                     \<or> category r = category_filter)
                                  \<and> in_stock r = Some b) (rows db))))
        then Inr (take (nat limit) (drop (nat skip)
               (filter (\<lambda>r. (category_filter = None \<or> category_filter = Some []
                               \<or> category r = category_filter)
                            \<and> in_stock r = Some b) (rows db))))
        else Inl ResponseValidationError)
   \<and> list_products category_filter None skip limit db
     = (if skip < 0 \<or> limit < 1 \<or> 500 < limit then Inl RequestValidationError
        else if list_all (\<lambda>r. category r \<noteq> None \<and> in_stock r \<noteq> None)
                  (take (nat limit) (drop (nat skip)
                     (filter (\<lambda>r. category_filter = None \<or> category_filter = Some []
                                    \<or> category r = category_filter) (rows db))))
        then Inr (take (nat limit) (drop (nat skip)
               (filter (\<lambda>r. category_filter = None \<or> category_filter = Some []
                              \<or> category r = category_filter) (rows db))))
        else Inl ResponseValidationError)"
proof (cases "skip < 0 \<or> limit < 1 \<or> 500 < limit")
  case True
  then show ?thesis by (simp add: list_products_def)
next
  case False
  then have bounds: "0 \<le> skip" "1 \<le> limit" "limit \<le> 500" by simp_all
  have "list_products (Some []) in_stock_filter skip limit db
          = list_products None in_stock_filter skip limit db"
    by (simp add: list_products_def)
  moreover note list_products_valid[OF bounds, of category_filter "Some b" db]
    list_products_valid[OF bounds, of category_filter None db]
  ultimately show ?thesis
    using False by (simp add: response_model_list_eq)
qed

theorem list_products_filter_tests_witness:
  "list_products (Some []) None 0 100 five_store = Inr (rows five_store)
   \<and> list_products None None 0 100 five_store = Inr (rows five_store)
   \<and> list_products None (Some False) 0 100 five_store
       = Inr [(product_row 3)\<lparr>in_stock := Some False\<rparr>]
   \<and> list_products None (Some True) 0 100 five_store
       = Inr [product_row 1, product_row 2, product_row 4, product_row 5]
   \<and> list_products (Some ''Toys'') None 0 100 five_store = Inr []"
  using list_products_filter_tests[of None 0 100 five_store None False]
        list_products_filter_tests[of None 0 100 five_store None True]
        list_products_filter_tests[of None 0 100 five_store "Some ''Toys''" True]
  by (simp add: list_products_def response_model_list_eq five_store_def product_row_def
        widget_row_def del: not_None_eq)

subsection \<open>The invariant and the history of a store\<close>


lemma id_col_apply_update [simp]: "id_col (apply_update u r) = id_col r"
  by (simp add: apply_update_def)

lemma id_col_if_update [simp]:
  "id_col (if c then apply_update u r else r) = id_col r"
  by simp

lemma store_inv_empty: "store_inv empty_store"
  by (simp add: store_inv_def empty_store_def)

lemma store_inv_create: "store_inv db \<Longrightarrow> store_inv (snd (create_product p db))"
  unfolding store_inv_def create_product_def
  by (auto simp: Let_def new_row_def sorted_wrt_append list_all_iff)

lemma store_inv_update: "store_inv db \<Longrightarrow> store_inv (snd (update_product i u db))"
  unfolding store_inv_def update_product_def
  by (auto simp: comp_def list_all_iff split: option.splits)

lemma store_inv_delete: "store_inv db \<Longrightarrow> store_inv (snd (delete_product i db))"
  unfolding store_inv_def delete_product_def
  by (auto simp: sorted_wrt_map sorted_wrt_filter list_all_iff split: option.splits)

lemma store_inv_serve: "store_inv db \<Longrightarrow> store_inv (serve r db)"
  by (cases r) (simp_all add: store_inv_create store_inv_update store_inv_delete)

lemma store_inv_run: "store_inv db \<Longrightarrow> store_inv (run h db)"
  by (induction h arbitrary: db) (simp_all add: store_inv_serve)

lemma auto_increment_serve: "auto_increment db \<le> auto_increment (serve r db)"
  by (cases r)
     (auto simp: create_product_def update_product_def delete_product_def Let_def
           split: option.splits)

lemma auto_increment_run: "auto_increment db \<le> auto_increment (run h db)"
proof (induction h arbitrary: db)
  case Nil
  show ?case by simp
next
  case (Cons r rs)
  have "auto_increment db \<le> auto_increment (serve r db)" by (rule auto_increment_serve)
  also have "\<dots> \<le> auto_increment (run rs (serve r db))" by (rule Cons.IH)
  finally show ?case by simp
qed

lemma created_by_ge: "i \<in> set (created_by r db) \<Longrightarrow> i = auto_increment db \<and> auto_increment db < auto_increment (serve r db)"
  by (cases r) (auto simp: create_product_def Let_def new_row_def split: if_splits)

lemma created_ge: "i \<in> set (created h db) \<Longrightarrow> auto_increment db \<le> i \<and> i < auto_increment (run h db)"
proof (induction h arbitrary: db)
  case Nil
  then show ?case by simp
next
  case (Cons r rs)
  from Cons.prems consider "i \<in> set (created_by r db)" | "i \<in> set (created rs (serve r db))"
    by auto
  then show ?case
  proof cases
    case 1
    from created_by_ge[OF 1] auto_increment_run[of "serve r db" rs] show ?thesis by simp
  next
    case 2
    from Cons.IH[OF 2] auto_increment_serve[of db r] show ?thesis by simp
  qed
qed

lemma ids_lt: "store_inv db \<Longrightarrow> i \<in> ids db \<Longrightarrow> i < auto_increment db"
  by (auto simp: store_inv_def ids_def list_all_iff)

lemma ids_create: "ids (snd (create_product p db)) = ids db \<union> set (created_by (Create p) db)"
  by (auto simp: ids_def create_product_def Let_def new_row_def)

lemma ids_map_update:
  "ids (db\<lparr>rows := map (\<lambda>r. if id_col r = i then apply_update u r else r) (rows db)\<rparr>) = ids db"
proof -
  have "id_col ` set (map (\<lambda>r. if id_col r = i then apply_update u r else r) xs) = id_col ` set xs"
    for xs
    by (induction xs) auto
  then show ?thesis unfolding ids_def by simp
qed

lemma ids_update: "ids (snd (update_product i u db)) = ids db"
  unfolding update_product_def
  by (simp only: ids_map_update snd_conv split: option.splits if_splits) simp

lemma first_by_id_None: "first_by_id i db = None \<Longrightarrow> i \<notin> ids db"
  by (auto simp: first_by_id_def ids_def find_None_iff)

lemma ids_delete: "ids (snd (delete_product i db)) = ids db - set (deleted_by (Delete i) db)"
  by (auto simp: ids_def delete_product_def dest: first_by_id_None[unfolded ids_def] split: option.splits)

lemma deleted_by_in: "i \<in> set (deleted_by r db) \<Longrightarrow> i \<in> ids db"
  by (cases r) (auto simp: delete_product_def ids_def dest: first_by_id_Some split: option.splits)

lemma ids_serve: "ids (serve r db) = (ids db \<union> set (created_by r db)) - set (deleted_by r db)"
  by (cases r) (simp_all add: ids_create ids_update ids_delete)

lemma ids_run:
  "store_inv db \<Longrightarrow> ids (run h db) \<subseteq> (ids db \<union> set (created h db)) - set (deleted h db)"
proof (induction h arbitrary: db)
  case Nil
  show ?case by simp
next
  case (Cons r rs)
  let ?db = "serve r db"
  have inv': "store_inv ?db" using Cons.prems by (rule store_inv_serve)
  have IH: "ids (run rs ?db) \<subseteq> (ids ?db \<union> set (created rs ?db)) - set (deleted rs ?db)"
    using inv' by (rule Cons.IH)
  have fresh: "i \<notin> set (created rs ?db)" if "i \<in> set (deleted_by r db)" for i
  proof
    assume c: "i \<in> set (created rs ?db)"
    have "i < auto_increment db" using Cons.prems deleted_by_in[OF that] by (rule ids_lt)
    moreover have "auto_increment ?db \<le> i" using created_ge[OF c] by simp
    moreover have "auto_increment db \<le> auto_increment ?db" by (rule auto_increment_serve)
    ultimately show False by simp
  qed
  show ?case
  proof
    fix x assume x: "x \<in> ids (run (r # rs) db)"
    then have "x \<in> (ids ?db \<union> set (created rs ?db)) - set (deleted rs ?db)" using IH by auto
    then show "x \<in> (ids db \<union> set (created (r # rs) db)) - set (deleted (r # rs) db)"
      using fresh[of x] by (auto simp: ids_serve)
  qed
qed

subsection \<open>Sample requests evaluated\<close>

lemma create_widget: "create_product widget empty_store = (Inr widget_row, widget_store)"
  by (simp add: create_product_def widget_def empty_store_def widget_row_def widget_store_def
        valid_ProductCreate_def valid_name_def valid_price_def valid_category_def new_row_def
        Let_def)

lemma first_widget: "first_by_id 1 widget_store = Some widget_row"
  by (simp add: first_by_id_def widget_store_def widget_row_def)

lemma first_stamped: "first_by_id 1 stamped_store = Some stamped_row"
  by (simp add: first_by_id_def stamped_store_def stamped_row_def)

lemma ids_widget_store: "ids widget_store = {1}"
  by (simp add: ids_def widget_store_def widget_row_def)

lemma delete_widget:
  "delete_product 1 widget_store = (Inr (), \<lparr>rows = [], auto_increment = 2\<rparr>)"
  by (simp add: delete_product_def first_widget) (simp add: widget_store_def widget_row_def)

lemma valid_price_patch: "valid_ProductUpdate price_patch"
  by (simp add: valid_ProductUpdate_def price_patch_def valid_price_def)

lemma apply_price_patch: "apply_update price_patch widget_row = repriced_row"
  by (simp add: apply_update_def price_patch_def widget_row_def repriced_row_def)

lemma update_widget_price:
  "update_product 1 price_patch widget_store = (Inr repriced_row, repriced_store)"
proof -
  have "u_name price_patch \<noteq> Given None" and "u_price price_patch \<noteq> Given None"
    by (simp_all add: price_patch_def)
  moreover have "map (\<lambda>r. if id_col r = 1 then apply_update price_patch r else r)
                   (rows widget_store) = [repriced_row]"
    by (simp add: widget_store_def apply_price_patch) (simp add: widget_row_def)
  moreover have "response_model repriced_row = Inr repriced_row"
    by (simp add: response_model_eq repriced_row_def)
  ultimately show ?thesis
    by (simp add: update_product_def valid_price_patch first_widget apply_price_patch)
       (simp add: widget_store_def repriced_store_def)
qed

subsection \<open>Not-Found\<close>

text \<open>
  C8. An identifier that is not in the table makes Get and Delete raise the 404
  \<^verbatim>\<open>HTTPException\<close> whose detail names it, and Delete leaves the store as it was. An
  identifier is not in the table after a history of requests when it was neither in the
  table at the start nor returned by a Create of the history, or when a Delete of the
  history removed it: the counter never issues an identifier twice. So Get and Delete
  signal Not-Found for it.
\<close>

theorem get_delete_not_found:
  "(product_id \<notin> ids db \<longrightarrow>
      get_product product_id db
        = Inl (HTTPException 404 (''Product '' @ str_int product_id @ '' not found''))
      \<and> delete_product product_id db
        = (Inl (HTTPException 404 (''Product '' @ str_int product_id @ '' not found'')), db))
   \<and> (store_inv db0
       \<and> (product_id \<notin> ids db0 \<and> product_id \<notin> set (created history db0)
           \<or> product_id \<in> set (deleted history db0))
      \<longrightarrow>
      get_product product_id (run history db0)
        = Inl (HTTPException 404 (''Product '' @ str_int product_id @ '' not found''))
      \<and> delete_product product_id (run history db0)
        = (Inl (HTTPException 404 (''Product '' @ str_int product_id @ '' not found'')),
           run history db0))"
proof -
  have absent: "get_product product_id d
        = Inl (HTTPException 404 (''Product '' @ str_int product_id @ '' not found''))
      \<and> delete_product product_id d
        = (Inl (HTTPException 404 (''Product '' @ str_int product_id @ '' not found'')), d)"
    if "product_id \<notin> ids d" for d
  proof -
    from that have "first_by_id product_id d = None"
      by (simp add: ids_def first_by_id_absent)
    then show ?thesis
      by (simp add: get_product_def delete_product_def not_found_def)
  qed
  have gone: "product_id \<notin> ids (run history db0)"
    if "store_inv db0
        \<and> (product_id \<notin> ids db0 \<and> product_id \<notin> set (created history db0)
            \<or> product_id \<in> set (deleted history db0))"
  proof -
    from that have
      "ids (run history db0) \<subseteq> (ids db0 \<union> set (created history db0)) - set (deleted history db0)"
      by (simp add: ids_run)
    with that show ?thesis by auto
  qed
  show ?thesis
    using absent[of db] absent[of "run history db0"] gone by blast
qed

lemma str_int_1: "str_int 1 = ''1''"
  by (simp add: str_int_def digit_char_def)

lemma str_int_7: "str_int 7 = ''7''"
  by (simp add: str_int_def digit_char_def)

lemma deleted_widget_history: "deleted [Create widget, Delete 1] empty_store = [1]"
  by (simp add: create_widget delete_widget)

theorem get_delete_not_found_witness:
  "7 \<notin> ids widget_store
   \<and> get_product 7 widget_store = Inl (HTTPException 404 ''Product 7 not found'')
   \<and> delete_product 7 widget_store
       = (Inl (HTTPException 404 ''Product 7 not found''), widget_store)
   \<and> store_inv empty_store
   \<and> 1 \<in> set (deleted [Create widget, Delete 1] empty_store)
   \<and> get_product 1 (run [Create widget, Delete 1] empty_store)
       = Inl (HTTPException 404 ''Product 1 not found'')"
  using get_delete_not_found[where product_id = 7 and db = widget_store
          and ?db0.0 = empty_store and history = "[]"]
        get_delete_not_found[where product_id = 1 and db = widget_store
          and ?db0.0 = empty_store and history = "[Create widget, Delete 1]"]
  by (simp add: ids_widget_store store_inv_empty create_widget delete_widget
        str_int_1 str_int_7)

subsection \<open>Update and the modification timestamp\<close>

lemma apply_update_empty_patch: "apply_update empty_patch r = r"
  by (simp add: apply_update_def empty_patch_def)

lemma map_empty_patch:
  "map (\<lambda>r. if id_col r = i then apply_update empty_patch r else r) xs = xs"
  by (induction xs) (simp_all add: apply_update_empty_patch)

lemma valid_empty_patch: "valid_ProductUpdate empty_patch"
  by (simp add: valid_ProductUpdate_def empty_patch_def)

lemma update_empty_patch_noop:
  "first_by_id product_id db = Some r \<Longrightarrow>
   update_product product_id empty_patch db = (response_model r, db)"
  by (simp add: update_product_def valid_empty_patch apply_update_empty_patch map_empty_patch)
     (simp add: empty_patch_def)

lemma patched_eq:
  "f \<noteq> Given None \<Longrightarrow> patched f old = (case f of Given (Some v) \<Rightarrow> v | _ \<Rightarrow> old)"
  by (cases f) (auto split: option.splits)

lemma patched_nullable_eq:
  "patched_nullable f old = (case f of Unset \<Rightarrow> old | Given v \<Rightarrow> v)"
  by (cases f) simp_all

lemma find_map_update:
  "find (\<lambda>r. id_col r = i) (map (\<lambda>r. if id_col r = i then apply_update u r else r) xs)
     = map_option (apply_update u) (find (\<lambda>r. id_col r = i) xs)"
  by (induction xs) auto

lemma filter_map_update:
  "filter (\<lambda>r. id_col r \<noteq> i) (map (\<lambda>r. if id_col r = i then apply_update u r else r) xs)
     = filter (\<lambda>r. id_col r \<noteq> i) xs"
  by (induction xs) auto

lemma columns_map_update:
  "map id_col (map (\<lambda>r. if id_col r = i then apply_update u r else r) xs) = map id_col xs
   \<and> map created_at (map (\<lambda>r. if id_col r = i then apply_update u r else r) xs)
       = map created_at xs
   \<and> map updated_at (map (\<lambda>r. if id_col r = i then apply_update u r else r) xs)
       = map updated_at xs"
  by (induction xs) (auto simp: apply_update_def)

lemma update_product_Inr:
  assumes "update_product product_id u db = (Inr r', db')"
  obtains r0 where "first_by_id product_id db = Some r0"
    and "r' = apply_update u r0"
    and "u_name u \<noteq> Given None" and "u_price u \<noteq> Given None"
    and "db' = db\<lparr>rows := map (\<lambda>r. if id_col r = product_id then apply_update u r else r)
                              (rows db)\<rparr>"
  using assms
  by (auto simp: update_product_def response_model_eq split: if_splits option.splits)

text \<open>
  C1 as stated fails. The widget created in the empty table has no modification
  timestamp; Update with the empty patch returns it with none, so no time was written.
  On a row stamped at time 5 the same request returns the stamp 5.
\<close>

theorem update_empty_patch_counterexample:
  "update_product 1 empty_patch widget_store = (Inr widget_row, widget_store)
   \<and> updated_at widget_row = None
   \<and> update_product 1 empty_patch stamped_store = (Inr stamped_row, stamped_store)
   \<and> updated_at stamped_row = Some 5"
  using update_empty_patch_noop[OF first_widget] update_empty_patch_noop[OF first_stamped]
  by (simp add: response_model_eq widget_row_def stamped_row_def)

text \<open>
  C1 as amended. For every existing product, Update with the empty patch leaves the store
  unchanged and returns the stored record with every field as it was, the modification
  timestamp included (when the stored record has no category or no in_stock value the
  answer is the response validation error instead). Every successful Update returns the
  stored record with exactly the fields given in the patch overwritten: a given name or
  price takes the given value, a given description, category or in_stock takes the given
  value or null, every field not given, the identifier and both timestamps are as stored.
  In the store the returned record stands in the place of the old one, every other row is
  as it was, and the identifier and the timestamps of every row, and the counter, are
  unchanged.
\<close>

theorem update_product_keeps_timestamp:
  "(first_by_id product_id db = Some r \<longrightarrow>
      update_product product_id empty_patch db
        = (if category r = None \<or> in_stock r = None then Inl ResponseValidationError
           else Inr r, db))
   \<and> (update_product product_id product_update db = (Inr r', db') \<longrightarrow>
      (case first_by_id product_id db of
         None \<Rightarrow> False
       | Some r0 \<Rightarrow>
           id_col r' = id_col r0
           \<and> created_at r' = created_at r0
           \<and> updated_at r' = updated_at r0
           \<and> name r' = (case u_name product_update of
                           Given (Some v) \<Rightarrow> v | _ \<Rightarrow> name r0)
           \<and> price r' = (case u_price product_update of
                           Given (Some v) \<Rightarrow> v | _ \<Rightarrow> price r0)
           \<and> description r' = (case u_description product_update of
                                  Unset \<Rightarrow> description r0 | Given v \<Rightarrow> v)
           \<and> category r' = (case u_category product_update of
                               Unset \<Rightarrow> category r0 | Given v \<Rightarrow> v)
           \<and> in_stock r' = (case u_in_stock product_update of
                               Unset \<Rightarrow> in_stock r0 | Given v \<Rightarrow> v))
      \<and> first_by_id product_id db' = Some r'
      \<and> filter (\<lambda>x. id_col x \<noteq> product_id) (rows db')
          = filter (\<lambda>x. id_col x \<noteq> product_id) (rows db)
      \<and> map id_col (rows db') = map id_col (rows db)
      \<and> map created_at (rows db') = map created_at (rows db)
      \<and> map updated_at (rows db') = map updated_at (rows db)
      \<and> auto_increment db' = auto_increment db)"
proof (intro conjI impI)
  assume "first_by_id product_id db = Some r"
  then show "update_product product_id empty_patch db
        = (if category r = None \<or> in_stock r = None then Inl ResponseValidationError
           else Inr r, db)"
    by (simp add: update_empty_patch_noop response_model_eq)
next
  assume a: "update_product product_id product_update db = (Inr r', db')"
  from a obtain r0 where r0: "first_by_id product_id db = Some r0"
    and r': "r' = apply_update product_update r0"
    and given: "u_name product_update \<noteq> Given None" "u_price product_update \<noteq> Given None"
    and db': "db' = db\<lparr>rows := map (\<lambda>r. if id_col r = product_id
                                          then apply_update product_update r else r)
                                   (rows db)\<rparr>"
    by (rule update_product_Inr)
  have fields: "id_col r' = id_col r0 \<and> created_at r' = created_at r0
      \<and> updated_at r' = updated_at r0
      \<and> name r' = patched (u_name product_update) (name r0)
      \<and> price r' = patched (u_price product_update) (price r0)
      \<and> description r' = patched_nullable (u_description product_update) (description r0)
      \<and> category r' = patched_nullable (u_category product_update) (category r0)
      \<and> in_stock r' = patched_nullable (u_in_stock product_update) (in_stock r0)"
    by (simp add: r' apply_update_def)
  show "case first_by_id product_id db of
         None \<Rightarrow> False
       | Some r0 \<Rightarrow>
           id_col r' = id_col r0
           \<and> created_at r' = created_at r0
           \<and> updated_at r' = updated_at r0
           \<and> name r' = (case u_name product_update of
                           Given (Some v) \<Rightarrow> v | _ \<Rightarrow> name r0)
           \<and> price r' = (case u_price product_update of
                           Given (Some v) \<Rightarrow> v | _ \<Rightarrow> price r0)
           \<and> description r' = (case u_description product_update of
                                  Unset \<Rightarrow> description r0 | Given v \<Rightarrow> v)
           \<and> category r' = (case u_category product_update of
                               Unset \<Rightarrow> category r0 | Given v \<Rightarrow> v)
           \<and> in_stock r' = (case u_in_stock product_update of
                               Unset \<Rightarrow> in_stock r0 | Given v \<Rightarrow> v)"
    using fields
    by (simp only: r0 option.case patched_eq[OF given(1)] patched_eq[OF given(2)]
          patched_nullable_eq)
  show "first_by_id product_id db' = Some r'"
    using r0 by (simp add: db' r' first_by_id_def find_map_update)
  show "filter (\<lambda>x. id_col x \<noteq> product_id) (rows db')
          = filter (\<lambda>x. id_col x \<noteq> product_id) (rows db)"
    using filter_map_update[of product_id product_update "rows db"] by (simp add: db')
  show "map id_col (rows db') = map id_col (rows db)"
    and "map created_at (rows db') = map created_at (rows db)"
    and "map updated_at (rows db') = map updated_at (rows db)"
    using columns_map_update[of product_id product_update "rows db"] by (simp_all add: db')
  show "auto_increment db' = auto_increment db" by (simp add: db')
qed

theorem update_product_keeps_timestamp_witness:
  "first_by_id 1 widget_store = Some widget_row
   \<and> update_product 1 empty_patch widget_store = (Inr widget_row, widget_store)
   \<and> update_product 1 price_patch widget_store = (Inr repriced_row, repriced_store)
   \<and> price repriced_row = 12.5
   \<and> name repriced_row = ''Widget''
   \<and> updated_at repriced_row = updated_at widget_row
   \<and> first_by_id 1 repriced_store = Some repriced_row
   \<and> map updated_at (rows repriced_store) = map updated_at (rows widget_store)"
  using update_product_keeps_timestamp[of 1 widget_store widget_row price_patch
          repriced_row repriced_store]
  by (simp add: first_widget update_widget_price del: not_None_eq)
     (simp add: repriced_row_def widget_row_def price_patch_def repriced_store_def
        widget_store_def first_by_id_def)

subsection \<open>Create\<close>

lemma find_snoc_fresh:
  "id_col x \<notin> id_col ` set xs \<Longrightarrow> find (\<lambda>r. id_col r = id_col x) (xs @ [x]) = Some x"
  by (induction xs) auto

lemma counter_not_in_ids: "store_inv db \<Longrightarrow> auto_increment db \<notin> ids db"
  using ids_lt[of db "auto_increment db"] by auto

text \<open>
  C4 as stated fails. Creating the widget in the empty table stores and returns a row
  whose two timestamps are absent, and two rows that differ in their timestamps only
  have the same response.
\<close>

theorem create_product_timestamps_counterexample:
  "create_product widget empty_store = (Inr widget_row, widget_store)
   \<and> created_at widget_row = None \<and> updated_at widget_row = None
   \<and> created_at stamped_row \<noteq> created_at widget_row
   \<and> Product_from_attributes stamped_row = Product_from_attributes widget_row"
  using create_widget
  by (simp add: widget_row_def stamped_row_def Product_from_attributes_def)

text \<open>
  C4 as amended. For every valid creation input, in the store reached by any history of
  requests from a store with unique ascending keys below the counter, Create returns a
  row whose identifier is in no row of the table, was in no row at the start and was
  returned by no earlier Create; the row is appended to the table and Get finds it; the
  response carries the identifier and the five fields of the input. Both timestamps of
  the row are absent, and the response has no timestamp.
\<close>

theorem create_product_fresh_id:
  assumes "valid_ProductCreate p" and "store_inv db0"
  shows "case create_product p (run history db0) of
           (Inl e, db') \<Rightarrow> False
         | (Inr row, db') \<Rightarrow>
             id_col row \<notin> ids (run history db0)
             \<and> id_col row \<notin> ids db0
             \<and> id_col row \<notin> set (created history db0)
             \<and> rows db' = rows (run history db0) @ [row]
             \<and> get_product (id_col row) db' = Inr row
             \<and> Product_from_attributes row
                 = Some \<lparr>r_id = id_col row, r_name = c_name p, r_price = c_price p,
                         r_description = c_description p, r_category = c_category p,
                         r_in_stock = c_in_stock p\<rparr>
             \<and> created_at row = None \<and> updated_at row = None"
proof -
  let ?db = "run history db0"
  let ?row = "new_row (auto_increment ?db) p"
  have inv: "store_inv ?db" using assms(2) by (rule store_inv_run)
  have fresh: "auto_increment ?db \<notin> ids ?db" using inv by (rule counter_not_in_ids)
  have old: "auto_increment ?db \<notin> ids db0"
    using ids_lt[OF assms(2), of "auto_increment ?db"] auto_increment_run[of db0 history]
    by auto
  have unissued: "auto_increment ?db \<notin> set (created history db0)"
    using created_ge[of "auto_increment ?db" history db0] by auto
  have id_row: "id_col ?row = auto_increment ?db" by (simp add: new_row_def)
  have "id_col ?row \<notin> id_col ` set (rows ?db)"
    using fresh by (simp add: ids_def id_row)
  then have "find (\<lambda>r. id_col r = id_col ?row) (rows ?db @ [?row]) = Some ?row"
    by (rule find_snoc_fresh)
  then have found: "get_product (id_col ?row)
      (?db\<lparr>rows := rows ?db @ [?row], auto_increment := auto_increment ?db + 1\<rparr>) = Inr ?row"
    by (simp add: get_product_def first_by_id_def)
  have resp: "Product_from_attributes ?row
                 = Some \<lparr>r_id = id_col ?row, r_name = c_name p, r_price = c_price p,
                         r_description = c_description p, r_category = c_category p,
                         r_in_stock = c_in_stock p\<rparr>"
    by (simp add: Product_from_attributes_def new_row_def)
  have stamps: "created_at ?row = None \<and> updated_at ?row = None"
    by (simp add: new_row_def)
  show ?thesis
    using assms(1) fresh old unissued found resp stamps
    by (simp add: create_product_def Let_def id_row)
qed

theorem create_product_fresh_id_witness:
  "valid_ProductCreate widget \<and> store_inv empty_store
   \<and> create_product widget (run [Create widget, Delete 1] empty_store)
       = (Inr (widget_row\<lparr>id_col := 2\<rparr>),
          \<lparr>rows = [widget_row\<lparr>id_col := 2\<rparr>], auto_increment = 3\<rparr>)
   \<and> 2 \<notin> set (created [Create widget, Delete 1] empty_store)
   \<and> Product_from_attributes (widget_row\<lparr>id_col := 2\<rparr>)
       = Some \<lparr>r_id = 2, r_name = ''Widget'', r_price = 9.99, r_description = None,
               r_category = ''General'', r_in_stock = True\<rparr>"
  using create_product_fresh_id[of widget empty_store "[Create widget, Delete 1]"]
  by (simp add: store_inv_empty create_widget delete_widget)
     (simp add: create_product_def widget_def widget_row_def valid_ProductCreate_def
        valid_name_def valid_price_def valid_category_def new_row_def Let_def
        Product_from_attributes_def)

text \<open>
  C6. A creation input with a price that is not positive, an empty or over-long name, an
  over-long description or an over-long category is rejected with the validation error
  and the store is as it was. For every valid creation input Create returns a row whose
  price is the price of the input, and that price is positive.
\<close>

theorem create_product_validation:
  "(c_price p \<le> 0 \<or> c_name p = [] \<or> 100 < length (c_name p)
      \<or> (case c_description p of None \<Rightarrow> False | Some d \<Rightarrow> 500 < length d)
      \<or> 50 < length (c_category p)
    \<longrightarrow> create_product p db = (Inl RequestValidationError, db))
   \<and> (valid_ProductCreate p
    \<longrightarrow> (case fst (create_product p db) of
           Inl e \<Rightarrow> False
         | Inr row \<Rightarrow> price row = c_price p \<and> 0 < price row))"
proof (intro conjI impI)
  assume "c_price p \<le> 0 \<or> c_name p = [] \<or> 100 < length (c_name p)
      \<or> (case c_description p of None \<Rightarrow> False | Some d \<Rightarrow> 500 < length d)
      \<or> 50 < length (c_category p)"
  then have "\<not> valid_ProductCreate p"
    by (auto simp: valid_ProductCreate_def valid_name_def valid_price_def
          valid_description_def valid_category_def split: option.splits)
  then show "create_product p db = (Inl RequestValidationError, db)"
    by (simp add: create_product_def)
next
  assume v: "valid_ProductCreate p"
  then have "0 < c_price p" by (simp add: valid_ProductCreate_def valid_price_def)
  with v show "case fst (create_product p db) of
           Inl e \<Rightarrow> False
         | Inr row \<Rightarrow> price row = c_price p \<and> 0 < price row"
    by (simp add: create_product_def Let_def new_row_def)
qed

theorem create_product_validation_witness:
  "c_price (widget\<lparr>c_price := 0\<rparr>) \<le> 0
   \<and> create_product (widget\<lparr>c_price := 0\<rparr>) widget_store
       = (Inl RequestValidationError, widget_store)
   \<and> create_product (widget\<lparr>c_name := []\<rparr>) widget_store
       = (Inl RequestValidationError, widget_store)
   \<and> valid_ProductCreate widget
   \<and> fst (create_product widget empty_store) = Inr widget_row
   \<and> price widget_row = c_price widget \<and> 0 < price widget_row"
  using create_product_validation[of "widget\<lparr>c_price := 0\<rparr>" widget_store]
        create_product_validation[of "widget\<lparr>c_name := []\<rparr>" widget_store]
        create_product_validation[of widget empty_store]
  by (simp add: create_widget)
     (simp add: widget_def widget_row_def valid_ProductCreate_def valid_name_def
        valid_price_def valid_category_def)


subsection \<open>Update with an invalid field\<close>



subsection \<open>Pages of List\<close>

lemma store_inv_five_store: "store_inv five_store"
  by (simp add: store_inv_def five_store_def product_row_def widget_row_def)

lemma create_next_widget:
  "create_product widget \<lparr>rows = xs, auto_increment = k\<rparr>
     = (Inr (product_row k), \<lparr>rows = xs @ [product_row k], auto_increment = k + 1\<rparr>)"
  by (simp add: create_product_def widget_def valid_ProductCreate_def valid_name_def
        valid_price_def valid_category_def new_row_def Let_def product_row_def widget_row_def)

lemma run_five_widgets:
  "run [Create widget, Create widget, Create widget, Create widget, Create widget] empty_store
     = \<lparr>rows = [product_row 1, product_row 2, product_row 3, product_row 4, product_row 5],
        auto_increment = 6\<rparr>"
  by (simp add: empty_store_def create_next_widget)

lemma valid_null_category_patch: "valid_ProductUpdate null_category_patch"
  by (simp add: valid_ProductUpdate_def null_category_patch_def)

lemma apply_null_category_patch: "apply_update null_category_patch r = r\<lparr>category := None\<rparr>"
  by (simp add: apply_update_def null_category_patch_def)

lemma update_null_category:
  "update_product 1 null_category_patch
     \<lparr>rows = [product_row 1, product_row 2, product_row 3, product_row 4, product_row 5],
      auto_increment = 6\<rparr>
   = (Inl ResponseValidationError, nulled_store)"
proof -
  have "u_name null_category_patch \<noteq> Given None" "u_price null_category_patch \<noteq> Given None"
    by (simp_all add: null_category_patch_def)
  then show ?thesis
    by (simp add: update_product_def valid_null_category_patch first_by_id_def
          apply_null_category_patch response_model_eq nulled_store_def)
       (simp add: product_row_def)
qed

lemma run_nulling_history: "run nulling_history empty_store = nulled_store"
  by (simp add: nulling_history_def empty_store_def create_next_widget update_null_category)

lemma list_products_empty_page:
  assumes "1 \<le> limit" and "limit \<le> 500"
    and "int (length (filter (\<lambda>r. (c = None \<or> c = Some [] \<or> category r = c)
                                  \<and> (s = None \<or> in_stock r = s)) (rows db))) \<le> skip"
  shows "list_products c s skip limit db = Inr []"
proof -
  from assms(3) have "0 \<le> skip" by linarith
  moreover from assms(3)
  have "length (filter (\<lambda>r. (c = None \<or> c = Some [] \<or> category r = c)
                           \<and> (s = None \<or> in_stock r = s)) (rows db)) \<le> nat skip"
    by linarith
  ultimately show ?thesis
    using assms(1,2) by (simp add: list_products_valid response_model_list_eq)
qed

text \<open>
  C7. The service reaches a table of five records on which List with skip 0 and limit 2
  does not return two records: after five creations of the widget and Update of the
  first with \<^verbatim>\<open>{category: null}\<close>, which the patch model accepts and the store commits
  although the response model declares the category a string, the first row has no
  category, the page of the first two rows does not validate and the request ends in the
  response validation error. The store kept its invariant, and the same request on the
  table before that Update returns the first two records. (On every store, a skip at or
  past the number of matching records gives the empty page.)
\<close>

theorem list_products_null_category_failure:
  "run nulling_history empty_store = nulled_store
   \<and> store_inv nulled_store
   \<and> length (rows nulled_store) = 5
   \<and> list_products None None 0 2 nulled_store = Inl ResponseValidationError
   \<and> list_products None None 0 2 five_store = Inr [product_row 1, product_row 2]
   \<and> list_products None None 5 2 nulled_store = Inr []"
proof -
  have "store_inv nulled_store"
    using store_inv_run[OF store_inv_empty, of nulling_history]
    by (simp add: run_nulling_history)
  moreover have "list_products None None 0 2 nulled_store = Inl ResponseValidationError"
    by (simp add: list_products_def response_model_list_eq nulled_store_def del: not_None_eq)
  moreover have "list_products None None 0 2 five_store = Inr [product_row 1, product_row 2]"
    by (simp add: list_products_def response_model_list_eq five_store_def product_row_def
          widget_row_def del: not_None_eq)
  moreover have "list_products None None 5 2 nulled_store = Inr []"
    by (rule list_products_empty_page) (simp_all add: nulled_store_def)
  ultimately show ?thesis
    by (simp add: run_nulling_history) (simp add: nulled_store_def)
qed

subsection \<open>Order of the page\<close>






section \<open>Properties of the Tool Proxy\<close>

subsection \<open>The get action on a missing product\<close>

text \<open>
  C9. For an identifier that is in no row of the catalog, the get action, given the
  answer of the service to its request, returns the payload
  \<^verbatim>\<open>{error: "Product <id> not found"}\<close> with that identifier. When the transport fails
  instead, it returns an error payload with the failure's message. In neither case does an
  exception leave the action.
\<close>

theorem mcp_get_product_not_found:
  assumes "product_id \<notin> ids db" and "http_get_product product_id db = (code, json)"
  shows "mcp_get_product describe product_id (Delivered code (Some json))
           = ErrorPayload (''Product '' @ str_int product_id @ '' not found'')
         \<and> mcp_get_product describe product_id (Failed message :: body exchange)
           = ErrorPayload (''Connection error: '' @ message)
         \<and> mcp_get_product describe product_id (Delivered code (Some json)) \<noteq> Raised
         \<and> mcp_get_product describe product_id (Failed message :: body exchange) \<noteq> Raised"
proof -
  from assms(1) have "get_product product_id db = Inl (not_found product_id)"
    by (simp add: get_product_def ids_def first_by_id_absent)
  with assms(2) have "code = 404"
    by (simp add: http_get_product_def not_found_def)
  then show ?thesis by (simp add: mcp_get_product_def)
qed

theorem mcp_get_product_not_found_witness:
  "7 \<notin> ids widget_store
   \<and> http_get_product 7 widget_store = (404, DetailBody ''Product 7 not found'')
   \<and> mcp_get_product (\<lambda>code. ''status'') 7
        (Delivered 404 (Some (DetailBody ''Product 7 not found'')))
       = ErrorPayload ''Product 7 not found''"
proof -
  have absent: "7 \<notin> ids widget_store" by (simp add: ids_widget_store)
  have answer: "http_get_product 7 widget_store = (404, DetailBody ''Product 7 not found'')"
    using absent
    by (simp add: http_get_product_def get_product_def ids_def first_by_id_absent
          not_found_def str_int_7)
  from mcp_get_product_not_found[OF absent answer, of "\<lambda>code. ''status''" "''''"]
  show ?thesis using absent answer by (simp add: str_int_7)
qed

subsection \<open>Actions and operations\<close>

text \<open>
  C3 as stated fails. Of the seven operations, Health has no action, and the list action
  does not take the parameters of List: it has no \<^verbatim>\<open>skip\<close>.
\<close>

theorem mcp_tools_counterexample:
  "map same_parameters service_operations = [False, True, True, True, True, True, False]
   \<and> map tool_for (filter (\<lambda>operation. action_name operation = ''health_check'')
        service_operations) = [None]
   \<and> length mcp_tools = 6
   \<and> mcp_list_products_params (Some ''Toys'') (Some True) 10
        = [(''limit'', ''10''), (''category'', ''Toys''), (''in_stock'', ''true'')]"
proof -
  have "''skip'' \<in> set [''category'', ''in_stock'', ''skip'', ''limit'']
        \<and> ''skip'' \<notin> set [''category'', ''in_stock'', ''limit'']"
    by simp
  then have "set [''category'', ''in_stock'', ''limit'']
               \<noteq> set [''category'', ''in_stock'', ''skip'', ''limit'']"
    by metis
  then show ?thesis
    by (simp add: service_operations_def same_parameters_def tool_for_def mcp_tools_def
          mcp_list_products_params_def str_int_def digit_char_def)
qed

text \<open>
  C3 as amended. The Tool Proxy has six actions: one for each of list, get, create,
  update, delete and list-categories, and none for health. The get, create, update,
  delete and list-categories actions take the parameters of their operations. The list
  action takes category, in_stock and limit; it takes no skip and never sends one.
\<close>

theorem mcp_tools_cover_six_operations:
  "map action_name mcp_tools
     = [''list_products'', ''get_product'', ''create_product'', ''update_product'',
        ''delete_product'', ''get_categories'']
   \<and> map (map_option action_name \<circ> tool_for) service_operations
     = [Some ''list_products'', Some ''get_product'', Some ''create_product'',
        Some ''update_product'', Some ''delete_product'', Some ''get_categories'', None]
   \<and> map same_parameters (filter (\<lambda>operation. action_name operation \<noteq> ''list_products''
                                     \<and> action_name operation \<noteq> ''health_check'')
                            service_operations)
     = [True, True, True, True, True]
   \<and> map parameters (filter (\<lambda>t. action_name t = ''list_products'') mcp_tools)
     = [[''category'', ''in_stock'', ''limit'']]
   \<and> ''skip'' \<notin> fst ` set (mcp_list_products_params category_filter in_stock_filter limit)"
proof -
  have "''skip'' \<notin> fst ` set (mcp_list_products_params category_filter in_stock_filter limit)"
    by (cases category_filter; cases in_stock_filter)
       (simp_all add: mcp_list_products_params_def)
  then show ?thesis
    by (simp add: service_operations_def same_parameters_def tool_for_def mcp_tools_def)
qed

end
